theory Spec2Isabelle
  imports Complex_Main "HOL-Library.Word"
begin

section \<open>Errors and numeric helpers\<close>

text \<open>
  The Python exceptions the modelled functions can raise. A function that can raise
  returns \<open>error + 'a\<close>, with \<open>Inl\<close> for the exception. Python floats are modelled
  as \<open>real\<close> (rounding is not modelled), Python ints as \<open>int\<close>, and the pixels of an
  8-bit grayscale image as \<open>8 word\<close>.
\<close>

datatype error =
    ZeroDivisionError
  | ValueError
  | KeyError string
  | RuntimeError
  | TypeError
  | AttributeError
  | FileNotFoundError
  | NotADirectoryError
  | IndexError
  | NameError
  | JSONDecodeError

type_synonym pixel = "8 word"

text \<open>\<open>np.round\<close>: rounds to the nearest integer, a tie to the even neighbour.\<close>

definition np_round :: "real \<Rightarrow> int" where
  "np_round x =
     (let f = \<lfloor>x\<rfloor>; d = x - of_int f
      in if d < 1 / 2 then f
         else if 1 / 2 < d then f + 1
         else if even f then f else f + 1)"

section \<open>porosity.py\<close>

text \<open>
  The dataclass \<open>Porosities\<close>; \<open>by_tracks\<close> defaults to \<open>None\<close>. The field \<open>total\<close>
  is named \<open>total_p\<close> here.
\<close>

record Porosities =
  total_p :: real
  by_foam_pores :: real
  by_tracks :: "real option"

text \<open>
  \<open>calculate_porostiy\<close>: \<open>100 / all_pixel * pixel_below_threshold\<close>, where \<open>all_pixel\<close>
  is the size of the flat array; Python raises \<open>ZeroDivisionError\<close> for \<open>100 / 0\<close>.
\<close>

definition calculate_porostiy :: "nat \<Rightarrow> pixel list \<Rightarrow> error + real" where
  "calculate_porostiy pixel_below_threshold flat_grayscale_image =
     (let all_pixel = length flat_grayscale_image
      in if all_pixel = 0 then Inl ZeroDivisionError
         else Inr (100 / real all_pixel * real pixel_below_threshold))"

text \<open>\<open>np.where(flat_grayscale_image < threshold)[0].size\<close> counts the pixels below the threshold.\<close>

definition calculate_porosity_w_threshold :: "pixel list \<Rightarrow> real \<Rightarrow> error + real" where
  "calculate_porosity_w_threshold flat_grayscale_image threshold =
     calculate_porostiy
       (length (filter (\<lambda>p. real (unat p) < threshold) flat_grayscale_image))
       flat_grayscale_image"

text \<open>
  \<open>np.mean\<close> and \<open>np.median\<close> of a flat array. On an empty array numpy returns
  \<open>nan\<close>, below which no pixel lies; the models return 0 there, and no pixel exists
  to be compared with it.
\<close>

definition np_mean :: "pixel list \<Rightarrow> real" where
  "np_mean flat = real (sum_list (map unat flat)) / real (length flat)"

definition np_median :: "pixel list \<Rightarrow> real" where
  "np_median flat =
     (let s = sort (map unat flat); n = length s
      in if n = 0 then 0
         else if odd n then real (s ! (n div 2))
         else (real (s ! (n div 2 - 1)) + real (s ! (n div 2))) / 2)"

definition calculate_porosity_w_mean :: "pixel list \<Rightarrow> error + real" where
  "calculate_porosity_w_mean flat_grayscale_image =
     (let mean = np_mean flat_grayscale_image
      in calculate_porosity_w_threshold flat_grayscale_image mean)"

definition calculate_porosity_w_median_plus_1 :: "pixel list \<Rightarrow> error + real" where
  "calculate_porosity_w_median_plus_1 flat_grayscale_image =
     (let median = np_median flat_grayscale_image
      in calculate_porosity_w_threshold flat_grayscale_image (median + 1))"

text \<open>\<open>porosity_in_margin\<close>: the chained comparison \<open>d + m >= a >= d - m\<close>.\<close>

definition porosity_in_margin :: "real \<Rightarrow> real \<Rightarrow> real \<Rightarrow> bool" where
  "porosity_in_margin desired_porosity actual_porosity porosity_margin =
     (desired_porosity + porosity_margin \<ge> actual_porosity
      \<and> actual_porosity \<ge> desired_porosity - porosity_margin)"

section \<open>src/parameters.py\<close>

text \<open>
  The porosity rule held by \<open>Parameters.porosity_function\<close>. The dataclass field holds a
  callable; \<open>save_files\<close> overwrites it with the callable's \<open>__name__\<close>, a string, so
  the field's value is either of the two.
\<close>

datatype rule = Calculate_porosity_w_mean | Calculate_porosity_w_median_plus_1

datatype porosity_function_value = Callable rule | Name string

fun rule_name :: "rule \<Rightarrow> string" where
  "rule_name Calculate_porosity_w_mean = ''calculate_porosity_w_mean''"
| "rule_name Calculate_porosity_w_median_plus_1 = ''calculate_porosity_w_median_plus_1''"

fun apply_rule :: "rule \<Rightarrow> pixel list \<Rightarrow> error + real" where
  "apply_rule Calculate_porosity_w_mean flat = calculate_porosity_w_mean flat"
| "apply_rule Calculate_porosity_w_median_plus_1 flat = calculate_porosity_w_median_plus_1 flat"

text \<open>
  The dataclass \<open>Parameters\<close>. \<open>track_mean_width\<close> and \<open>track_mean_height\<close> are
  annotated \<open>int\<close> but receive \<open>+= 0.5\<close> and \<open>np.round\<close> results, so they are
  \<open>real\<close>, as is \<open>foam_pores_center_scaling_factor\<close>, whose default is
  \<open>track_mean_width / 3.0\<close>.
\<close>

record Parameters =
  image_width :: int
  image_height :: int
  total_porosity_margin :: real
  porosity_foam_pore_margin :: real
  foam_pore_amount_adaption_threshold :: real
  porosity_function :: porosity_function_value
  x_offset :: int
  y_offset :: int
  track_mean_width :: real
  track_width_variation :: real
  track_mean_height :: real
  track_height_variation :: real
  randomized_track_x_factor :: int
  randomized_track_y_factor :: int
  foam_pores_center_scaling_factor :: real
  mean_diameter_of_foam_pores :: int
  mean_foam_pores_per_track :: int
  variation_of_foam_pores_per_track :: int
  foam_pore_variation_of_diameter :: real

text \<open>\<open>Parameters()\<close>: the defaults of the dataclass.\<close>

definition default_Parameters :: Parameters where
  "default_Parameters =
     \<lparr> image_width = 1360, image_height = 1024,
       total_porosity_margin = 1, porosity_foam_pore_margin = 2,
       foam_pore_amount_adaption_threshold = 3,
       porosity_function = Callable Calculate_porosity_w_mean,
       x_offset = 25, y_offset = 10,
       track_mean_width = 50, track_width_variation = 2 / 10,
       track_mean_height = 40, track_height_variation = 8 / 100,
       randomized_track_x_factor = 5, randomized_track_y_factor = 4,
       foam_pores_center_scaling_factor = 50 / 3,
       mean_diameter_of_foam_pores = 5, mean_foam_pores_per_track = 8,
       variation_of_foam_pores_per_track = 4,
       foam_pore_variation_of_diameter = 8 / 10 \<rparr>"

text \<open>
  \<open>Parameters.adapt_parameters\<close> mutates \<open>self\<close>; here it returns the updated
  record. Its four statements, in the source's order: the track sizing, the foam-pore
  sizing, the override for a desired foam-pore porosity of zero, and the pore-centre
  scaling factor.
\<close>

definition adapt_track_size :: "Parameters \<Rightarrow> Porosities \<Rightarrow> Porosities \<Rightarrow> Parameters" where
  "adapt_track_size self desired_porosities actual_porosities =
     (if by_foam_pores desired_porosities - porosity_foam_pore_margin self
           < by_foam_pores actual_porosities
         \<and> by_foam_pores actual_porosities
           < by_foam_pores desired_porosities + porosity_foam_pore_margin self
      then
        (if \<bar>total_p actual_porosities - total_p desired_porosities\<bar> > 7 then
           (if total_p actual_porosities > total_p desired_porosities
            then self\<lparr>track_mean_width := track_mean_width self + 3,
                      track_mean_height := track_mean_height self + 2\<rparr>
            else self\<lparr>track_mean_width := track_mean_width self - 3,
                      track_mean_height := track_mean_height self - 2\<rparr>)
         else if total_p actual_porosities > total_p desired_porosities
         then self\<lparr>track_mean_width := track_mean_width self + 1,
                   track_mean_height := track_mean_height self + 1 / 2\<rparr>
         else self\<lparr>track_mean_width := track_mean_width self - 1,
                   track_mean_height := track_mean_height self - 1 / 2\<rparr>)
      else
        (if \<bar>total_p actual_porosities - total_p desired_porosities\<bar> > 10 then
           (if total_p actual_porosities > total_p desired_porosities
            then self\<lparr>track_mean_width := track_mean_width self + 3,
                      track_mean_height := track_mean_height self + 2\<rparr>
            else self\<lparr>track_mean_width := track_mean_width self - 3,
                      track_mean_height := track_mean_height self - 2\<rparr>)
         else if total_p actual_porosities > total_p desired_porosities
         then self\<lparr>track_mean_width := track_mean_width self + 1,
                   track_mean_height := track_mean_height self + 1 / 2\<rparr>
         else self\<lparr>track_mean_width := track_mean_width self - 1,
                   track_mean_height := track_mean_height self - 1 / 2\<rparr>))"

definition adapt_foam_pores :: "Parameters \<Rightarrow> Porosities \<Rightarrow> Porosities \<Rightarrow> Parameters" where
  "adapt_foam_pores self desired_porosities actual_porosities =
     (let difference_in_foam_porosity =
            by_foam_pores actual_porosities - by_foam_pores desired_porosities
      in if \<bar>difference_in_foam_porosity\<bar> > porosity_foam_pore_margin self then
           (if difference_in_foam_porosity > 0 then
              (if difference_in_foam_porosity < foam_pore_amount_adaption_threshold self
                  \<and> mean_foam_pores_per_track self < 10
               then
                 (let s1 = self\<lparr>mean_diameter_of_foam_pores :=
                                  mean_diameter_of_foam_pores self - 1\<rparr>
                  in if mean_diameter_of_foam_pores s1 \<le> 0
                     then s1\<lparr>mean_diameter_of_foam_pores := 1\<rparr> else s1)
               else
                 (let s1 = self\<lparr>mean_foam_pores_per_track :=
                                  mean_foam_pores_per_track self - 1\<rparr>
                  in if mean_foam_pores_per_track s1 \<le> 0 then
                       (let s2 = s1\<lparr>mean_foam_pores_per_track := 1\<rparr>;
                            s3 = s2\<lparr>variation_of_foam_pores_per_track :=
                                        variation_of_foam_pores_per_track s2 - 1\<rparr>
                        in if variation_of_foam_pores_per_track s3 < 0
                           then s3\<lparr>variation_of_foam_pores_per_track := 0\<rparr> else s3)
                     else s1))
            else
              (if \<bar>difference_in_foam_porosity\<bar> < foam_pore_amount_adaption_threshold self
               then self\<lparr>mean_diameter_of_foam_pores :=
                           mean_diameter_of_foam_pores self + 1\<rparr>
               else self\<lparr>mean_foam_pores_per_track :=
                           mean_foam_pores_per_track self + 1\<rparr>))
         else self)"

definition adapt_parameters :: "Parameters \<Rightarrow> Porosities \<Rightarrow> Porosities \<Rightarrow> Parameters" where
  "adapt_parameters self desired_porosities actual_porosities =
     (let s1 = adapt_track_size self desired_porosities actual_porosities;
          s2 = adapt_foam_pores s1 desired_porosities actual_porosities;
          s3 = (if by_foam_pores desired_porosities = 0
                then s2\<lparr>mean_foam_pores_per_track := 0\<rparr> else s2)
      in s3\<lparr>foam_pores_center_scaling_factor :=
              of_int (np_round (track_mean_width s3 / 3))\<rparr>)"

section \<open>user_config.py\<close>

record UserConfig =
  layer_height :: int
  layer_width_to_layer_height_ratio :: real
  desired_porosities :: Porosities
  output_folder :: string

section \<open>src/ellipse.py and the rasterizer\<close>

text \<open>
  A \<open>BezierEllipse\<close> as far as \<open>generate_objects\<close> determines it: centre, width,
  height and colour. Its Bezier vertices, drawn with \<open>np.random.random\<close> in the
  constructor, are not modelled; the constructor raises no exception.
\<close>

datatype colour = LIGHT_ELLIPSE_COLOR | DARK_ELLIPSE_COLOR

record BezierEllipse =
  ellipse_x :: real
  ellipse_y :: real
  ellipse_width :: real
  ellipse_height :: real
  ellipse_color :: colour

type_synonym image = "pixel list list"

text \<open>
  The pyplot figure: its size in inches, its axis limits and the patches added so far.
\<close>

record figure =
  figsize :: "real \<times> real"
  xlim :: int
  ylim :: int
  patches :: "BezierEllipse list"

text \<open>
  What the program takes from outside: the process-wide random source and the
  rasterizer (\<open>convert_plt_to_greyscale_array\<close>: matplotlib and OpenCV). Each is a
  sequence indexed by the number of draws and renderings made so far, so that every
  course of draws and every rendered image is covered.
\<close>

record world =
  randint_raw :: "nat \<Rightarrow> int"
  normal_raw :: "nat \<Rightarrow> real"
  convert_plt_to_greyscale_array :: "nat \<Rightarrow> figure \<Rightarrow> image"

section \<open>src/utils.py\<close>

text \<open>
  \<open>np.random.randint(low, high)\<close> draws from the half-open range \<open>[low, high)\<close> and
  raises \<open>ValueError\<close> when \<open>low >= high\<close>.
\<close>

definition np_random_randint :: "world \<Rightarrow> nat \<Rightarrow> int \<Rightarrow> int \<Rightarrow> error + int" where
  "np_random_randint w k low high =
     (if low \<ge> high then Inl ValueError
      else Inr (low + randint_raw w k mod (high - low)))"

definition draw_random_normal_int :: "world \<Rightarrow> nat \<Rightarrow> real \<Rightarrow> real \<Rightarrow> real" where
  "draw_random_normal_int w k low high =
     (let normal = normal_raw w k;
          normal = (if normal < - 3 then - 3 else normal);
          normal = (if normal > 3 then 3 else normal);
          scaling_factor = (high - low) / 6;
          normal_scaled = normal * scaling_factor;
          normal_scaled = normal_scaled + (low + (high - low) / 2)
      in of_int (np_round normal_scaled))"

text \<open>
  numpy indexing: a negative index counts from the end. \<open>border_correction\<close> only
  uses indices from \<open>-1\<close> up to the last one.
\<close>

definition np_index :: "nat \<Rightarrow> int \<Rightarrow> nat" where
  "np_index n i = nat (if i < 0 then i + int n else i)"

text \<open>
  \<open>border_correction\<close>: the body of the two loops, then the loops, which update the
  array in place, row by row; \<open>width\<close> is \<open>shape[0]\<close> and \<open>height\<close> is \<open>shape[1]\<close>.
\<close>

definition border_correction_pixel :: "nat \<Rightarrow> nat \<Rightarrow> nat \<Rightarrow> nat \<Rightarrow> image \<Rightarrow> image" where
  "border_correction_pixel width height xi yi img_grey =
     (if img_grey ! xi ! yi = 0 then
        (let x_new = (if int xi = int width - 1 then int width - 2 else int xi + 1);
             y_new = (if int yi = int height - 1 then int height - 2 else int yi + 1)
         in img_grey[xi := (img_grey ! xi)
               [yi := img_grey ! np_index width x_new ! np_index height y_new]])
      else img_grey)"

definition border_correction :: "image \<Rightarrow> image" where
  "border_correction img_grey =
     (let width = length img_grey;
          height = (case img_grey of [] \<Rightarrow> 0 | row # _ \<Rightarrow> length row)
      in fold (\<lambda>xi. fold (\<lambda>yi. border_correction_pixel width height xi yi) [0..<height])
           [0..<width] img_grey)"

definition setup_figure_w_axes :: "Parameters \<Rightarrow> figure" where
  "setup_figure_w_axes parameters =
     \<lparr> figsize = (of_int (image_width parameters) / 100, of_int (image_height parameters) / 100),
       xlim = image_width parameters, ylim = image_height parameters, patches = [] \<rparr>"

text \<open>\<open>range(0, stop, step)\<close> for a positive step.\<close>

definition py_range :: "int \<Rightarrow> int \<Rightarrow> int list" where
  "py_range stop step = map (\<lambda>i. int i * step) [0..<nat ((stop + step - 1) div step)]"

text \<open>
  \<open>generate_objects\<close>. The state of the loops is the number of draws made so far and
  the two lists. The innermost loop appends one foam pore per round.
\<close>

type_synonym gen_state = "nat \<times> BezierEllipse list \<times> BezierEllipse list"

fun foam_pore_loop :: "world \<Rightarrow> Parameters \<Rightarrow> int \<Rightarrow> int \<Rightarrow> nat \<Rightarrow> gen_state \<Rightarrow> gen_state" where
  "foam_pore_loop w parameters x y 0 st = st"
| "foam_pore_loop w parameters x y (Suc n) (k, track_objects, foam_pore_objects) =
     (let deviation_from_diameter =
            of_int (np_round (of_int (mean_diameter_of_foam_pores parameters)
                               * foam_pore_variation_of_diameter parameters));
          low_foam_pore = of_int (mean_diameter_of_foam_pores parameters) - deviation_from_diameter;
          high_foam_pore = of_int (mean_diameter_of_foam_pores parameters) + deviation_from_diameter;
          generated_width_foam_pore = draw_random_normal_int w k low_foam_pore high_foam_pore;
          generated_height_foam_pore = draw_random_normal_int w (k + 1) low_foam_pore high_foam_pore;
          randomized_x_foam = of_int (x_offset parameters) + of_int x
             + normal_raw w (k + 2) * foam_pores_center_scaling_factor parameters;
          randomized_y_foam = of_int (y_offset parameters) + of_int y
             + normal_raw w (k + 3) * foam_pores_center_scaling_factor parameters;
          a_foam_pore = \<lparr> ellipse_x = randomized_x_foam, ellipse_y = randomized_y_foam,
             ellipse_width = generated_width_foam_pore, ellipse_height = generated_height_foam_pore,
             ellipse_color = DARK_ELLIPSE_COLOR \<rparr>
      in foam_pore_loop w parameters x y n
           (k + 4, track_objects, foam_pore_objects @ [a_foam_pore]))"

text \<open>The body of the grid loops, for the cell at \<open>(x, y)\<close>.\<close>

definition generate_cell ::
  "world \<Rightarrow> Parameters \<Rightarrow> UserConfig \<Rightarrow> int \<times> int \<Rightarrow> gen_state \<Rightarrow> error + gen_state" where
  "generate_cell w parameters user_config xy st =
     (case (xy, st) of ((x, y), (k, track_objects, foam_pore_objects)) \<Rightarrow>
      let absolute_track_width_variation =
            track_mean_width parameters * track_width_variation parameters
      in case np_random_randint w k
                \<lfloor>track_mean_width parameters - absolute_track_width_variation\<rfloor>
                \<lceil>track_mean_width parameters + absolute_track_width_variation\<rceil> of
           Inl e \<Rightarrow> Inl e
         | Inr generated_width \<Rightarrow>
      let absolute_track_height_variation =
            track_mean_height parameters * track_height_variation parameters
      in case np_random_randint w (k + 1)
                \<lfloor>track_mean_height parameters - absolute_track_height_variation\<rfloor>
                \<lceil>track_mean_height parameters + absolute_track_height_variation\<rceil> of
           Inl e \<Rightarrow> Inl e
         | Inr generated_height \<Rightarrow>
      let randomized_x = of_int (x_offset parameters) + of_int x
            + normal_raw w (k + 2) * of_int (randomized_track_x_factor parameters);
          randomized_y = of_int (y_offset parameters) + of_int y
            + normal_raw w (k + 3) * of_int (randomized_track_y_factor parameters);
          track_pore = \<lparr> ellipse_x = randomized_x, ellipse_y = randomized_y,
            ellipse_width = of_int generated_width, ellipse_height = of_int generated_height,
            ellipse_color = LIGHT_ELLIPSE_COLOR \<rparr>;
          track_objects = track_objects @ [track_pore]
      in if \<not> by_foam_pores (desired_porosities user_config) = 0 then
           (case np_random_randint w (k + 4)
                   (mean_foam_pores_per_track parameters
                      - variation_of_foam_pores_per_track parameters)
                   (mean_foam_pores_per_track parameters
                      + variation_of_foam_pores_per_track parameters) of
              Inl e \<Rightarrow> Inl e
            | Inr n \<Rightarrow>
                Inr (foam_pore_loop w parameters x y (nat n)
                       (k + 5, track_objects, foam_pore_objects)))
         else Inr (k + 4, track_objects, foam_pore_objects))"

fun grid_loop ::
  "world \<Rightarrow> Parameters \<Rightarrow> UserConfig \<Rightarrow> (int \<times> int) list \<Rightarrow> gen_state \<Rightarrow> error + gen_state" where
  "grid_loop w parameters user_config [] st = Inr st"
| "grid_loop w parameters user_config (xy # cells) st =
     (case generate_cell w parameters user_config xy st of
        Inl e \<Rightarrow> Inl e
      | Inr st' \<Rightarrow> grid_loop w parameters user_config cells st')"

definition generate_objects ::
  "world \<Rightarrow> nat \<Rightarrow> Parameters \<Rightarrow> UserConfig \<Rightarrow> error + gen_state" where
  "generate_objects w k parameters user_config =
     (let layer_width = np_round (of_int (layer_height user_config)
                          * layer_width_to_layer_height_ratio user_config)
      in if \<not> layer_width > 0 then Inl ValueError
         else if \<not> layer_height user_config > 0 then Inl ValueError
         else grid_loop w parameters user_config
                (List.product (py_range (image_width parameters) layer_width)
                              (py_range (image_height parameters) (layer_height user_config)))
                (k, [], []))"

text \<open>
  \<open>save_files\<close>, as far as it touches its arguments: it overwrites
  \<open>parameters.porosity_function\<close> with the function's \<open>__name__\<close> (a string has no
  such attribute) and dumps the three objects. The result is the updated
  \<open>Parameters\<close> and the dumped configuration; the writes to the file system are not
  modelled.
\<close>

definition save_files ::
  "image \<Rightarrow> Parameters \<Rightarrow> Porosities \<Rightarrow> UserConfig
     \<Rightarrow> error + (Parameters \<times> (UserConfig \<times> Parameters \<times> Porosities))" where
  "save_files img_grey_sp parameters actual_porosities user_config =
     (case porosity_function parameters of
        Name s \<Rightarrow> Inl AttributeError
      | Callable f \<Rightarrow>
          (let parameters = parameters\<lparr>porosity_function := Name (rule_name f)\<rparr>;
               config_to_dump = (user_config, parameters, actual_porosities)
           in Inr (parameters, config_to_dump)))"

section \<open>draw_routine.py\<close>

text \<open>
  \<open>parameters.porosity_function(flat, False)\<close>: calling the field. After \<open>save_files\<close>
  the field holds a string, and calling a string raises \<open>TypeError\<close>.
\<close>

definition call_porosity_function :: "Parameters \<Rightarrow> pixel list \<Rightarrow> error + real" where
  "call_porosity_function parameters flat =
     (case porosity_function parameters of
        Callable f \<Rightarrow> apply_rule f flat
      | Name s \<Rightarrow> Inl TypeError)"

text \<open>
  One round of the loop of \<open>generate_image\<close> up to the margin test: generate the
  objects, render the tracks, measure, add the foam pores, render, measure. The result
  is the measured \<open>Porosities\<close>, the final image and the number of draws and renderings
  made.
\<close>

definition render_and_measure ::
  "world \<Rightarrow> nat \<Rightarrow> UserConfig \<Rightarrow> Parameters \<Rightarrow> error + (Porosities \<times> image \<times> nat)" where
  "render_and_measure w k user_config parameters =
     (let fig = setup_figure_w_axes parameters
      in case generate_objects w k parameters user_config of
           Inl e \<Rightarrow> Inl e
         | Inr (k, track_objects, foam_pore_objects) \<Rightarrow>
             (let fig = fig\<lparr>patches := patches fig @ track_objects\<rparr>;
                  img_grey = convert_plt_to_greyscale_array w k fig;
                  img_grey = border_correction img_grey
              in case call_porosity_function parameters (concat img_grey) of
                   Inl e \<Rightarrow> Inl e
                 | Inr tracks_porosity \<Rightarrow>
                     (let fig = fig\<lparr>patches := patches fig @ foam_pore_objects\<rparr>;
                          img_grey_sp = convert_plt_to_greyscale_array w (k + 1) fig;
                          img_grey_sp = border_correction img_grey_sp
                      in case call_porosity_function parameters (concat img_grey_sp) of
                           Inl e \<Rightarrow> Inl e
                         | Inr total_porosity \<Rightarrow>
                             Inr (\<lparr> total_p = total_porosity,
                                    by_foam_pores = total_porosity - tracks_porosity,
                                    by_tracks = Some tracks_porosity \<rparr>,
                                  img_grey_sp, k + 2))))"

text \<open>
  The rest of the round: return the measured porosities when both are in their margin
  (saving first when \<open>save\<close> is set), otherwise adapt the parameters and go round again.
  \<open>Parameters\<close> is mutated in place, so the outcome carries its state.
\<close>

datatype iteration_outcome =
    Raised error
  | Returned Parameters Porosities
  | Again Parameters nat

definition generate_image_iteration ::
  "world \<Rightarrow> nat \<Rightarrow> UserConfig \<Rightarrow> Parameters \<Rightarrow> bool \<Rightarrow> iteration_outcome" where
  "generate_image_iteration w k user_config parameters save =
     (case render_and_measure w k user_config parameters of
        Inl e \<Rightarrow> Raised e
      | Inr (actual_porosities, img_grey_sp, k') \<Rightarrow>
          (let porosity_total_in_margin =
                 porosity_in_margin (total_p (desired_porosities user_config))
                   (total_p actual_porosities) (total_porosity_margin parameters);
               porosity_foam_pores_in_margin =
                 porosity_in_margin (by_foam_pores (desired_porosities user_config))
                   (by_foam_pores actual_porosities) (porosity_foam_pore_margin parameters)
           in if porosity_total_in_margin \<and> porosity_foam_pores_in_margin then
                (if save then
                   (case save_files img_grey_sp parameters actual_porosities user_config of
                      Inl e \<Rightarrow> Raised e
                    | Inr (parameters', dumped) \<Rightarrow> Returned parameters' actual_porosities)
                 else Returned parameters actual_porosities)
              else Again (adapt_parameters parameters (desired_porosities user_config)
                            actual_porosities) k'))"

text \<open>
  \<open>generate_image\<close>: the \<open>while (True)\<close> loop, with fuel. \<open>None\<close> means that the loop
  has not returned within the given number of rounds; otherwise the result is the state
  of the caller's \<open>Parameters\<close> object and the exception raised or the \<open>Porosities\<close>
  returned.
\<close>

fun generate_image ::
  "nat \<Rightarrow> world \<Rightarrow> nat \<Rightarrow> UserConfig \<Rightarrow> Parameters \<Rightarrow> bool
     \<Rightarrow> (Parameters \<times> (error + Porosities)) option" where
  "generate_image 0 w k user_config parameters save = None"
| "generate_image (Suc fuel) w k user_config parameters save =
     (case generate_image_iteration w k user_config parameters save of
        Raised e \<Rightarrow> Some (parameters, Inl e)
      | Returned parameters' actual_porosities \<Rightarrow> Some (parameters', Inr actual_porosities)
      | Again parameters' k' \<Rightarrow> generate_image fuel w k' user_config parameters' save)"

section \<open>Loading a configuration file\<close>

text \<open>
  The value \<open>json.load\<close> returns; a \<open>JDict\<close> holds the items of the Python dict, each
  key once. \<open>Ill_typed_document\<close> is not a Python exception: the records below
  have typed fields, and the loaders answer with it for a document whose value at a
  field does not have the field's type, where Python would store the value unchecked.
\<close>

datatype json =
    JNull
  | JBool bool
  | JInt int
  | JFloat real
  | JStr string
  | JList "json list"
  | JDict "(string \<times> json) list"

datatype load_error = Python error | Ill_typed_document

text \<open>
  The file system as the loaders see it: \<open>Path.is_file\<close>, \<open>Path.suffix\<close>,
  \<open>Path.is_dir\<close>, \<open>str(Path(...))\<close> and the parsed content of a file (\<open>None\<close> when
  it is not valid JSON).
\<close>

record file_system =
  is_file :: "string \<Rightarrow> bool"
  path_suffix :: "string \<Rightarrow> string"
  is_dir :: "string \<Rightarrow> bool"
  path_str :: "string \<Rightarrow> string"
  json_load :: "string \<Rightarrow> json option"

definition as_int :: "json \<Rightarrow> int option" where
  "as_int v = (case v of JInt i \<Rightarrow> Some i | _ \<Rightarrow> None)"

definition as_real :: "json \<Rightarrow> real option" where
  "as_real v = (case v of JInt i \<Rightarrow> Some (of_int i) | JFloat r \<Rightarrow> Some r | _ \<Rightarrow> None)"

definition as_str :: "json \<Rightarrow> string option" where
  "as_str v = (case v of JStr s \<Rightarrow> Some s | _ \<Rightarrow> None)"

definition as_dict :: "json \<Rightarrow> (string \<times> json) list option" where
  "as_dict v = (case v of JDict d \<Rightarrow> Some d | _ \<Rightarrow> None)"

text \<open>The backslash, and the truth value Python gives a string in a condition.\<close>

definition backslash :: string where
  "backslash = [CHR 0x5C]"

definition py_truthy_str :: "string \<Rightarrow> bool" where
  "py_truthy_str s = (s \<noteq> [])"

subsection \<open>UserConfig.load_from_file\<close>

text \<open>
  A loader returns the messages it printed with \<open>print_red_terminal_message\<close> and
  its result. The first loop over \<open>needed_params\<close> raises at the first absent
  parameter; otherwise it ends with the loop variable \<open>param\<close> bound to the last
  element. The second loop prints \<open>param\<close>, the variable of the first loop.
\<close>

definition needed_params :: "string list" where
  "needed_params =
     [''layer_height'', ''layer_width_to_layer_height_ratio'', ''output_folder'',
      ''desired_porosities'']"

definition needed_porosity_params :: "string list" where
  "needed_porosity_params = [''total'', ''by_foam_pores'']"

fun needed_params_loop ::
  "(string \<times> json) list \<Rightarrow> string list \<Rightarrow> string option
     \<Rightarrow> (string list \<times> load_error) + string option" where
  "needed_params_loop user_config_dict [] param = Inr param"
| "needed_params_loop user_config_dict (p # ps) param =
     (if map_of user_config_dict p = None then
        Inl ([''Error! Parameter '' @ p @ '' was not specified in specified config file!''],
             Python RuntimeError)
      else needed_params_loop user_config_dict ps (Some p))"

fun needed_porosity_params_loop ::
  "(string \<times> json) list \<Rightarrow> string list \<Rightarrow> string option
     \<Rightarrow> (string list \<times> load_error) + unit" where
  "needed_porosity_params_loop desired_porosities_dict [] param = Inr ()"
| "needed_porosity_params_loop desired_porosities_dict (p_param # ps) param =
     (if map_of desired_porosities_dict p_param = None then
        (case param of
           None \<Rightarrow> Inl ([], Python NameError)
         | Some param \<Rightarrow>
             Inl ([''Error! Parameter '' @ param
                    @ '' was not specified in desired porosities dict of specified config file''],
                  Python RuntimeError))
      else needed_porosity_params_loop desired_porosities_dict ps param)"

text \<open>
  The condition \<open>not output_directory[-1] == '/' or '\\'\<close>: Python reads it as
  \<open>(not (output_directory[-1] == '/')) or '\\'\<close>.
\<close>

definition directory_suffix_condition :: "string \<Rightarrow> bool" where
  "directory_suffix_condition output_directory =
     (\<not> (last output_directory = CHR ''/'') \<or> py_truthy_str backslash)"

text \<open>The statements after the checks, on the \<open>user_config\<close> dict.\<close>

definition build_user_config ::
  "(string \<times> json) list \<Rightarrow> (string \<times> json) list \<Rightarrow> string option
     \<Rightarrow> string list \<times> (load_error + UserConfig)" where
  "build_user_config user_config_dict desired_porosities_dict output_directory =
     (case (Option.bind (map_of user_config_dict ''layer_height'') as_int,
            Option.bind (map_of user_config_dict ''layer_width_to_layer_height_ratio'') as_real,
            (case output_directory of
               None \<Rightarrow> Option.bind (map_of user_config_dict ''output_folder'') as_str
             | Some d \<Rightarrow> Some d),
            Option.bind (map_of desired_porosities_dict ''total'') as_real,
            Option.bind (map_of desired_porosities_dict ''by_foam_pores'') as_real) of
        (Some layer_height_v, Some ratio_v, Some output_directory, Some total_v, Some foam_v) \<Rightarrow>
          (if output_directory = [] then ([], Inl (Python IndexError))
           else
             (let output_directory =
                    (if directory_suffix_condition output_directory
                     then output_directory @ backslash else output_directory);
                  desired = \<lparr> total_p = total_v, by_foam_pores = foam_v, by_tracks = None \<rparr>
              in ([], Inr \<lparr> layer_height = layer_height_v,
                            layer_width_to_layer_height_ratio = ratio_v,
                            desired_porosities = desired,
                            output_folder = output_directory \<rparr>)))
      | _ \<Rightarrow> ([], Inl Ill_typed_document))"

definition UserConfig_load_from_file ::
  "file_system \<Rightarrow> string \<Rightarrow> string option \<Rightarrow> string list \<times> (load_error + UserConfig)" where
  "UserConfig_load_from_file fs filename output_directory =
     (if \<not> is_file fs filename \<or> path_suffix fs filename \<noteq> ''.json'' then
        ([''Error! The given file name '' @ filename @ '' is not a valid json file!''],
         Inl (Python FileNotFoundError))
      else if (case output_directory of None \<Rightarrow> False | Some d \<Rightarrow> \<not> is_dir fs d) then
        ([''Error! The given directory name ''
            @ (case output_directory of None \<Rightarrow> [] | Some d \<Rightarrow> path_str fs d)
            @ '' is not a valid directory!''],
         Inl (Python NotADirectoryError))
      else
        (case json_load fs filename of
           None \<Rightarrow> ([], Inl (Python JSONDecodeError))
         | Some loaded_json_file \<Rightarrow>
        (case as_dict loaded_json_file of
           None \<Rightarrow> ([], Inl Ill_typed_document)
         | Some loaded \<Rightarrow>
        (case map_of loaded ''user_config'' of
           None \<Rightarrow>
             ([''Error! No user_config parameter dict found in specified config file!''],
              Inl (Python RuntimeError))
         | Some ucd \<Rightarrow>
        (case as_dict ucd of
           None \<Rightarrow> ([], Inl Ill_typed_document)
         | Some user_config_dict \<Rightarrow>
        (case needed_params_loop user_config_dict needed_params None of
           Inl (msgs, e) \<Rightarrow> (msgs, Inl e)
         | Inr param \<Rightarrow>
        (case Option.bind (map_of user_config_dict ''desired_porosities'') as_dict of
           None \<Rightarrow> ([], Inl Ill_typed_document)
         | Some desired_porosities_dict \<Rightarrow>
        (case needed_porosity_params_loop desired_porosities_dict needed_porosity_params param of
           Inl (msgs, e) \<Rightarrow> (msgs, Inl e)
         | Inr u \<Rightarrow>
             build_user_config user_config_dict desired_porosities_dict output_directory))))))))"

subsection \<open>Parameters.load_from_file\<close>

text \<open>
  The assignments \<open>params.f = parameter_file['f']\<close>, in the source's order: the key and
  the update of the field. A subscript with an absent key raises \<open>KeyError\<close> with the
  key.
\<close>

definition int_field ::
  "(int \<Rightarrow> Parameters \<Rightarrow> Parameters) \<Rightarrow> json \<Rightarrow> Parameters \<Rightarrow> Parameters option" where
  "int_field upd v params = map_option (\<lambda>i. upd i params) (as_int v)"

definition real_field ::
  "(real \<Rightarrow> Parameters \<Rightarrow> Parameters) \<Rightarrow> json \<Rightarrow> Parameters \<Rightarrow> Parameters option" where
  "real_field upd v params = map_option (\<lambda>r. upd r params) (as_real v)"

definition assignments :: "(string \<times> (json \<Rightarrow> Parameters \<Rightarrow> Parameters option)) list" where
  "assignments =
     [(''image_width'', int_field (\<lambda>v p. p\<lparr>image_width := v\<rparr>)),
      (''image_height'', int_field (\<lambda>v p. p\<lparr>image_height := v\<rparr>)),
      (''total_porosity_margin'', real_field (\<lambda>v p. p\<lparr>total_porosity_margin := v\<rparr>)),
      (''porosity_foam_pore_margin'', real_field (\<lambda>v p. p\<lparr>porosity_foam_pore_margin := v\<rparr>)),
      (''foam_pore_amount_adaption_threshold'',
         real_field (\<lambda>v p. p\<lparr>foam_pore_amount_adaption_threshold := v\<rparr>)),
      (''x_offset'', int_field (\<lambda>v p. p\<lparr>x_offset := v\<rparr>)),
      (''y_offset'', int_field (\<lambda>v p. p\<lparr>y_offset := v\<rparr>)),
      (''track_mean_width'', real_field (\<lambda>v p. p\<lparr>track_mean_width := v\<rparr>)),
      (''track_width_variation'', real_field (\<lambda>v p. p\<lparr>track_width_variation := v\<rparr>)),
      (''track_mean_height'', real_field (\<lambda>v p. p\<lparr>track_mean_height := v\<rparr>)),
      (''track_height_variation'', real_field (\<lambda>v p. p\<lparr>track_height_variation := v\<rparr>)),
      (''randomized_track_x_factor'', int_field (\<lambda>v p. p\<lparr>randomized_track_x_factor := v\<rparr>)),
      (''randomized_track_y_factor'', int_field (\<lambda>v p. p\<lparr>randomized_track_y_factor := v\<rparr>)),
      (''foam_pores_center_scaling_factor'',
         real_field (\<lambda>v p. p\<lparr>foam_pores_center_scaling_factor := v\<rparr>)),
      (''mean_diameter_of_foam_pores'',
         int_field (\<lambda>v p. p\<lparr>mean_diameter_of_foam_pores := v\<rparr>)),
      (''mean_foam_pores_per_track'', int_field (\<lambda>v p. p\<lparr>mean_foam_pores_per_track := v\<rparr>)),
      (''variation_of_foam_pores_per_track'',
         int_field (\<lambda>v p. p\<lparr>variation_of_foam_pores_per_track := v\<rparr>))]"

fun assign_all ::
  "(string \<times> json) list \<Rightarrow> (string \<times> (json \<Rightarrow> Parameters \<Rightarrow> Parameters option)) list
     \<Rightarrow> Parameters \<Rightarrow> load_error + Parameters" where
  "assign_all parameter_file [] params = Inr params"
| "assign_all parameter_file ((key, assign) # rest) params =
     (case map_of parameter_file key of
        None \<Rightarrow> Inl (Python (KeyError key))
      | Some v \<Rightarrow>
          (case assign v params of
             None \<Rightarrow> Inl Ill_typed_document
           | Some params' \<Rightarrow> assign_all parameter_file rest params'))"

text \<open>The choice of the porosity rule: the new \<open>Parameters\<close> and the message printed.\<close>

definition set_porosity_function :: "json \<Rightarrow> Parameters \<Rightarrow> string list \<times> Parameters" where
  "set_porosity_function name params =
     (if name = JStr ''calculate_porosity_w_mean'' then
        ([], params\<lparr>porosity_function := Callable Calculate_porosity_w_mean\<rparr>)
      else if name = JStr ''calculate_porosity_w_median'' then
        ([], params\<lparr>porosity_function := Callable Calculate_porosity_w_median_plus_1\<rparr>)
      else
        ([''The given porosity function is not supported in this loading process''], params))"

definition set_foam_pore_variation_of_diameter ::
  "(string \<times> json) list \<Rightarrow> Parameters \<Rightarrow> load_error + Parameters" where
  "set_foam_pore_variation_of_diameter parameter_file params =
     (case map_of parameter_file ''foam_pore_variation_of_diameter'' of
        Some v \<Rightarrow>
          (case as_real v of
             None \<Rightarrow> Inl Ill_typed_document
           | Some r \<Rightarrow> Inr (params\<lparr>foam_pore_variation_of_diameter := r\<rparr>))
      | None \<Rightarrow> Inr (params\<lparr>foam_pore_variation_of_diameter := 1\<rparr>))"

definition Parameters_load_from_file ::
  "file_system \<Rightarrow> string \<Rightarrow> string list \<times> (load_error + Parameters)" where
  "Parameters_load_from_file fs filename =
     (if \<not> is_file fs filename then ([], Inl (Python FileNotFoundError))
      else
        (case json_load fs filename of
           None \<Rightarrow> ([], Inl (Python JSONDecodeError))
         | Some loaded_json_file \<Rightarrow>
        (case as_dict loaded_json_file of
           None \<Rightarrow> ([], Inl Ill_typed_document)
         | Some loaded \<Rightarrow>
        (case map_of loaded ''parameters'' of
           None \<Rightarrow> ([], Inl (Python (KeyError ''parameters'')))
         | Some pf \<Rightarrow>
        (case as_dict pf of
           None \<Rightarrow> ([], Inl Ill_typed_document)
         | Some parameter_file \<Rightarrow>
        (let params = default_Parameters
         in case map_of parameter_file ''porosity_function'' of
              None \<Rightarrow> ([], Inl (Python (KeyError ''porosity_function'')))
            | Some name \<Rightarrow>
                (case set_porosity_function name params of
                   (msgs, params) \<Rightarrow>
                     (case assign_all parameter_file assignments params of
                        Inl e \<Rightarrow> (msgs, Inl e)
                      | Inr params \<Rightarrow>
                          (msgs, set_foam_pore_variation_of_diameter parameter_file params)))))))))"

section \<open>Predicates and example inputs used in the statements\<close>

text \<open>
  A numpy array is rectangular: every row has the length \<open>shape[1]\<close>. A buffer has no
  zero pixel when no pixel equals the sentinel value 0 that \<open>border_correction\<close>
  replaces.
\<close>

definition rectangular :: "image \<Rightarrow> bool" where
  "rectangular img =
     (\<forall>row\<in>set img. length row = (case img of [] \<Rightarrow> 0 | r # _ \<Rightarrow> length r))"

definition no_zero_pixel :: "image \<Rightarrow> bool" where
  "no_zero_pixel img = (\<forall>row\<in>set img. \<forall>p\<in>set row. p \<noteq> 0)"

text \<open>
  The margin test of \<open>generate_image\<close>: both measured porosities are in their margin.
\<close>

definition accepted :: "UserConfig \<Rightarrow> Parameters \<Rightarrow> Porosities \<Rightarrow> bool" where
  "accepted user_config parameters actual_porosities =
     (porosity_in_margin (total_p (desired_porosities user_config))
        (total_p actual_porosities) (total_porosity_margin parameters)
      \<and> porosity_in_margin (by_foam_pores (desired_porosities user_config))
        (by_foam_pores actual_porosities) (porosity_foam_pore_margin parameters))"

text \<open>
  An example of the outside world, for the runs of the loop evaluated below: every draw
  of \<open>randint\<close> gives the largest value of its range, every normal draw gives 0, and the
  rasterizer gives a 1 x 4 image with one dark pixel for a figure of tracks only and with
  three dark pixels once a foam pore is on the figure. With it come a user configuration
  for given desired porosities, the states of \<open>Parameters\<close> in which a round of the loop
  succeeds in generating its objects, and two predicates on lists of shapes.
\<close>

definition example_world :: world where
  "example_world =
     \<lparr> randint_raw = (\<lambda>n. - 1), normal_raw = (\<lambda>n. 0),
       convert_plt_to_greyscale_array =
         (\<lambda>n fig. if list_ex (\<lambda>e. ellipse_color e = DARK_ELLIPSE_COLOR) (patches fig)
                   then [[100, 100, 100, 200]] else [[200, 200, 200, 100]]) \<rparr>"

definition example_config :: "real \<Rightarrow> real \<Rightarrow> UserConfig" where
  "example_config t f =
     \<lparr> layer_height = 40, layer_width_to_layer_height_ratio = 5 / 4,
       desired_porosities = \<lparr> total_p = t, by_foam_pores = f, by_tracks = None \<rparr>,
       output_folder = ''output'' \<rparr>"

definition loop_state :: "Parameters \<Rightarrow> bool" where
  "loop_state p =
     (0 < image_width p \<and> 0 < image_height p
      \<and> porosity_function p = Callable Calculate_porosity_w_mean
      \<and> total_porosity_margin p = 1 \<and> porosity_foam_pore_margin p = 2
      \<and> foam_pore_amount_adaption_threshold p = 3
      \<and> 0 < track_width_variation p \<and> 0 < track_height_variation p
      \<and> 0 < track_mean_width p \<and> 0 < track_mean_height p
      \<and> 1 \<le> mean_foam_pores_per_track p
      \<and> 0 \<le> variation_of_foam_pores_per_track p)"

definition all_light :: "BezierEllipse list \<Rightarrow> bool" where
  "all_light ts = (\<not> list_ex (\<lambda>e. ellipse_color e = DARK_ELLIPSE_COLOR) ts)"

definition has_dark :: "BezierEllipse list \<Rightarrow> bool" where
  "has_dark fs = list_ex (\<lambda>e. ellipse_color e = DARK_ELLIPSE_COLOR) fs"

text \<open>
  An example of a configuration file, as \<open>json.load\<close> returns it, for given
  \<open>desired_porosities\<close> and a given name of the porosity rule, and a file system in
  which every path is a JSON file with this content and a directory.
\<close>

definition example_user_config_dict :: "(string \<times> json) list \<Rightarrow> (string \<times> json) list" where
  "example_user_config_dict desired =
     [(''layer_height'', JInt 40),
      (''layer_width_to_layer_height_ratio'', JFloat (5 / 4)),
      (''output_folder'', JStr ''output/''),
      (''desired_porosities'', JDict desired)]"

definition example_parameter_file :: "string \<Rightarrow> (string \<times> json) list" where
  "example_parameter_file rule_given =
     [(''porosity_function'', JStr rule_given),
      (''image_width'', JInt 1360), (''image_height'', JInt 1024),
      (''total_porosity_margin'', JFloat 1), (''porosity_foam_pore_margin'', JFloat 2),
      (''foam_pore_amount_adaption_threshold'', JFloat 3),
      (''x_offset'', JInt 25), (''y_offset'', JInt 10),
      (''track_mean_width'', JInt 50), (''track_width_variation'', JFloat (2 / 10)),
      (''track_mean_height'', JInt 40), (''track_height_variation'', JFloat (8 / 100)),
      (''randomized_track_x_factor'', JInt 5), (''randomized_track_y_factor'', JInt 4),
      (''foam_pores_center_scaling_factor'', JInt 17),
      (''mean_diameter_of_foam_pores'', JInt 5),
      (''mean_foam_pores_per_track'', JInt 8),
      (''variation_of_foam_pores_per_track'', JInt 4)]"

definition example_document :: "(string \<times> json) list \<Rightarrow> string \<Rightarrow> json" where
  "example_document desired rule_given =
     JDict [(''user_config'', JDict (example_user_config_dict desired)),
            (''parameters'', JDict (example_parameter_file rule_given))]"

definition example_file_system :: "json \<Rightarrow> file_system" where
  "example_file_system document =
     \<lparr> is_file = (\<lambda>name. True), path_suffix = (\<lambda>name. ''.json''),
       is_dir = (\<lambda>name. True), path_str = (\<lambda>name. name),
       json_load = (\<lambda>name. Some document) \<rparr>"

section \<open>The porosity measurement\<close>










text \<open>On the empty buffer both rules raise.\<close>

lemma porosity_empty_buffer:
  "calculate_porosity_w_mean [] = Inl ZeroDivisionError
   \<and> calculate_porosity_w_median_plus_1 [] = Inl ZeroDivisionError"
  by (simp add: calculate_porosity_w_mean_def calculate_porosity_w_median_plus_1_def
      calculate_porosity_w_threshold_def calculate_porostiy_def)



section \<open>The adaptation of the parameters\<close>

lemma adapt_foam_pores_track [simp]:
  "track_mean_width (adapt_foam_pores s d a) = track_mean_width s"
  "track_mean_height (adapt_foam_pores s d a) = track_mean_height s"
  by (simp_all add: adapt_foam_pores_def Let_def)





lemma adapt_track_size_foam [simp]:
  "mean_diameter_of_foam_pores (adapt_track_size s d a) = mean_diameter_of_foam_pores s"
  "mean_foam_pores_per_track (adapt_track_size s d a) = mean_foam_pores_per_track s"
  "variation_of_foam_pores_per_track (adapt_track_size s d a) = variation_of_foam_pores_per_track s"
  "porosity_foam_pore_margin (adapt_track_size s d a) = porosity_foam_pore_margin s"
  "foam_pore_amount_adaption_threshold (adapt_track_size s d a) = foam_pore_amount_adaption_threshold s"
  by (simp_all add: adapt_track_size_def)

lemma adapt_parameters_foam:
  "mean_diameter_of_foam_pores (adapt_parameters p d a)
     = mean_diameter_of_foam_pores (adapt_foam_pores (adapt_track_size p d a) d a)"
  "variation_of_foam_pores_per_track (adapt_parameters p d a)
     = variation_of_foam_pores_per_track (adapt_foam_pores (adapt_track_size p d a) d a)"
  "mean_foam_pores_per_track (adapt_parameters p d a)
     = (if by_foam_pores d = 0 then 0
        else mean_foam_pores_per_track (adapt_foam_pores (adapt_track_size p d a) d a))"
  by (simp_all add: adapt_parameters_def Let_def)








text \<open>A desired foam-pore porosity of zero forces the pore count to 0.\<close>

lemma adapt_parameters_desired_zero:
  "by_foam_pores d = 0 \<Longrightarrow> mean_foam_pores_per_track (adapt_parameters p d a) = 0"
  by (simp add: adapt_parameters_foam)

section \<open>The border correction\<close>

lemma border_correction_pixel_noop:
  "img ! xi ! yi \<noteq> 0 \<Longrightarrow> border_correction_pixel w h xi yi img = img"
  by (simp add: border_correction_pixel_def)

lemma fold_fixed: "(\<And>x. x \<in> set xs \<Longrightarrow> f x s = s) \<Longrightarrow> fold f xs s = s"
  by (induction xs) simp_all

lemma border_correction_no_zero:
  assumes r: "rectangular img" and z: "no_zero_pixel img"
  shows "border_correction img = img"
proof -
  let ?h = "case img of [] \<Rightarrow> 0 | r # _ \<Rightarrow> length r"
  have px: "img ! xi ! yi \<noteq> 0" if "xi < length img" "yi < ?h" for xi yi
  proof -
    have row: "img ! xi \<in> set img" using that(1) by simp
    then have "length (img ! xi) = ?h" using r by (simp add: rectangular_def)
    then have "img ! xi ! yi \<in> set (img ! xi)" using that(2) by simp
    then show ?thesis using z row by (auto simp: no_zero_pixel_def)
  qed
  have inner: "fold (\<lambda>yi. border_correction_pixel (length img) ?h xi yi) [0..<?h] img = img"
    if "xi < length img" for xi
    by (rule fold_fixed) (simp add: border_correction_pixel_noop px that)
  have "fold (\<lambda>xi. fold (\<lambda>yi. border_correction_pixel (length img) ?h xi yi) [0..<?h])
          [0..<length img] img = img"
    by (rule fold_fixed) (simp add: inner)
  then show ?thesis by (simp add: border_correction_def Let_def)
qed











section \<open>The feedback loop\<close>


lemma call_porosity_function_Inr:
  "call_porosity_function p flat = Inr v \<Longrightarrow> \<exists>f. porosity_function p = Callable f"
  by (cases "porosity_function p") (simp_all add: call_porosity_function_def)

lemma call_porosity_function_Name:
  "porosity_function p = Name s \<Longrightarrow> call_porosity_function p flat = Inl TypeError"
  by (simp add: call_porosity_function_def)


lemma iteration_cases:
  "generate_image_iteration w k uc p save =
     (case render_and_measure w k uc p of
        Inl e \<Rightarrow> Raised e
      | Inr (act, img, k') \<Rightarrow>
          if accepted uc p act then
            (if save then
               (case porosity_function p of
                  Name s \<Rightarrow> Raised AttributeError
                | Callable f \<Rightarrow> Returned (p\<lparr>porosity_function := Name (rule_name f)\<rparr>) act)
             else Returned p act)
          else Again (adapt_parameters p (desired_porosities uc) act) k')"
  by (simp add: generate_image_iteration_def accepted_def save_files_def Let_def
      split: sum.splits prod.splits porosity_function_value.splits)






lemma render_and_measure_Name:
  assumes "porosity_function p = Name s"
  shows "\<exists>e. render_and_measure w k uc p = Inl e
           \<and> (e = TypeError \<or> generate_objects w k p uc = Inl e)"
  using assms
  by (simp add: render_and_measure_def Let_def call_porosity_function_Name
      split: sum.splits prod.splits)

lemma save_files_frame:
  assumes "save_files img p act uc = Inr (p', dumped)"
  shows "\<exists>f. porosity_function p = Callable f
           \<and> p' = p\<lparr>porosity_function := Name (rule_name f)\<rparr>"
  using assms
  by (auto simp: save_files_def Let_def split: porosity_function_value.splits)

lemma generate_image_Name:
  assumes "porosity_function p = Name s"
  shows "\<exists>e. generate_image (Suc n) w k uc p save = Some (p, Inl e)
           \<and> (e = TypeError \<or> generate_objects w k p uc = Inl e)"
proof -
  obtain e where "render_and_measure w k uc p = Inl e"
    "e = TypeError \<or> generate_objects w k p uc = Inl e"
    using render_and_measure_Name [OF assms] by blast
  then show ?thesis by (simp add: iteration_cases)
qed

lemma generate_image_save:
  "generate_image fuel w k uc p True = Some (p', Inr act) \<Longrightarrow>
     \<exists>q f. generate_image fuel w k uc p False = Some (q, Inr act)
       \<and> porosity_function q = Callable f
       \<and> p' = q\<lparr>porosity_function := Name (rule_name f)\<rparr>"
proof (induction fuel arbitrary: k p)
  case 0
  then show ?case by simp
next
  case (Suc fuel)
  show ?case
  proof (cases "render_and_measure w k uc p")
    case (Inl e)
    with Suc.prems show ?thesis by (simp add: iteration_cases)
  next
    case (Inr r)
    obtain a img k' where r: "r = (a, img, k')" by (cases r) auto
    show ?thesis
    proof (cases "accepted uc p a")
      case True
      with Suc.prems Inr r show ?thesis
        by (cases "porosity_function p") (auto simp: iteration_cases)
    next
      case False
      with Suc.prems Inr r
      have "generate_image fuel w k' uc (adapt_parameters p (desired_porosities uc) a) True
              = Some (p', Inr act)"
        by (simp add: iteration_cases)
      from Suc.IH [OF this] show ?thesis using False Inr r
        by (simp add: iteration_cases)
    qed
  qed
qed

text \<open>
  C10. \<open>save_files\<close> mutates its \<open>Parameters\<close> argument: it replaces the callable
  in \<open>porosity_function\<close> by the function's name and leaves every other field as it is.
  So after an accepted run of \<open>generate_image\<close> with \<open>save=True\<close> the caller's
  \<open>Parameters\<close> is that of the same run without saving, except that its
  \<open>porosity_function\<close> holds the name; and every further generation run with it raises
  in its first round (\<open>TypeError\<close> at the first measurement, unless
  \<open>generate_objects\<close> raises before) instead of returning.
\<close>

theorem save_files_overwrites_porosity_function:
  "(save_files img p act uc = Inr (p', dumped) \<longrightarrow>
      (\<exists>f. porosity_function p = Callable f
         \<and> p' = p\<lparr>porosity_function := Name (rule_name f)\<rparr>))
   \<and> (generate_image fuel w k uc p True = Some (p'', Inr act) \<longrightarrow>
        (\<exists>q f. generate_image fuel w k uc p False = Some (q, Inr act)
           \<and> porosity_function q = Callable f
           \<and> p'' = q\<lparr>porosity_function := Name (rule_name f)\<rparr>)
        \<and> (\<forall>n w' k' uc' save'.
              \<exists>e. generate_image (Suc n) w' k' uc' p'' save' = Some (p'', Inl e)
                \<and> (e = TypeError \<or> generate_objects w' k' p'' uc' = Inl e)))"
proof -
  have a: "\<exists>f. porosity_function p = Callable f
         \<and> p' = p\<lparr>porosity_function := Name (rule_name f)\<rparr>"
    if "save_files img p act uc = Inr (p', dumped)"
    using save_files_frame [OF that] .
  have b: "\<exists>q f. generate_image fuel w k uc p False = Some (q, Inr act)
           \<and> porosity_function q = Callable f
           \<and> p'' = q\<lparr>porosity_function := Name (rule_name f)\<rparr>"
    if "generate_image fuel w k uc p True = Some (p'', Inr act)"
    using generate_image_save [OF that] .
  have c: "\<exists>e. generate_image (Suc n) w' k' uc' p'' save' = Some (p'', Inl e)
                \<and> (e = TypeError \<or> generate_objects w' k' p'' uc' = Inl e)"
    if h: "generate_image fuel w k uc p True = Some (p'', Inr act)" for n w' k' uc' save'
  proof -
    obtain q f where "p'' = q\<lparr>porosity_function := Name (rule_name f)\<rparr>"
      using b [OF h] by blast
    then have "porosity_function p'' = Name (rule_name f)" by simp
    then show ?thesis by (rule generate_image_Name)
  qed
  show ?thesis using a b c by blast
qed

section \<open>Generating the objects\<close>

lemma py_range_nonempty: "0 < stop \<Longrightarrow> 0 < step \<Longrightarrow> py_range stop step \<noteq> []"
proof -
  assume a: "0 < stop" "0 < step"
  then have "step \<le> stop + step - 1" by simp
  then have "1 \<le> (stop + step - 1) div step"
    using a(2) by (metis div_self less_irrefl zdiv_mono1)
  then show ?thesis by (simp add: py_range_def)
qed

lemma product_nonempty: "xs \<noteq> [] \<Longrightarrow> ys \<noteq> [] \<Longrightarrow> List.product xs ys \<noteq> []"
  by (cases xs; cases ys) simp_all








lemma np_round_of_int [simp]: "np_round (of_int n) = n"
  by (simp add: np_round_def)

lemma np_round_numeral [simp]: "np_round (numeral n) = numeral n"
  using np_round_of_int [of "numeral n"] by simp

lemma floor_less_ceiling:
  fixes c a :: real
  assumes "0 < a"
  shows "\<lfloor>c - a\<rfloor> < \<lceil>c + a\<rceil>"
proof -
  have "of_int \<lfloor>c - a\<rfloor> \<le> c - a" by simp
  also have "\<dots> < c + a" using assms by simp
  also have "\<dots> \<le> of_int \<lceil>c + a\<rceil>" by simp
  finally show ?thesis by simp
qed

lemma foam_pore_loop_result:
  "\<exists>ps. foam_pore_loop w p x y n (k, ts, fs) = (k + 4 * n, ts, fs @ ps)
        \<and> length ps = n \<and> (\<forall>e\<in>set ps. ellipse_color e = DARK_ELLIPSE_COLOR)"
proof (induction n arbitrary: k fs)
  case 0
  then show ?case by simp
next
  case (Suc n)
  have "\<exists>e. ellipse_color e = DARK_ELLIPSE_COLOR
          \<and> foam_pore_loop w p x y (Suc n) (k, ts, fs)
              = foam_pore_loop w p x y n (k + 4, ts, fs @ [e])"
    apply (simp add: Let_def)
    apply (rule exI)
    apply (rule conjI)
     prefer 2
     apply (rule refl)
    apply simp
    done
  then obtain e where e: "ellipse_color e = DARK_ELLIPSE_COLOR"
    and step: "foam_pore_loop w p x y (Suc n) (k, ts, fs)
                 = foam_pore_loop w p x y n (k + 4, ts, fs @ [e])"
    by blast
  obtain ps where ps: "foam_pore_loop w p x y n (k + 4, ts, fs @ [e])
        = (k + 4 + 4 * n, ts, (fs @ [e]) @ ps)"
      "length ps = n" "\<forall>e\<in>set ps. ellipse_color e = DARK_ELLIPSE_COLOR"
    using Suc.IH [of "k + 4" "fs @ [e]"] by blast
  show ?case
    unfolding step ps(1) by (rule exI [of _ "e # ps"]) (simp add: e ps(2,3))
qed


lemma example_randint:
  "low < high \<Longrightarrow> np_random_randint example_world k low high = Inr (high - 1)"
proof -
  assume a: "low < high"
  then have "(- 1) mod (high - low) = high - low - 1"
    by (simp add: zmod_minus1)
  then show ?thesis using a by (simp add: np_random_randint_def example_world_def)
qed

lemma generate_cell_example:
  assumes "loop_state p" and fv: "f = 0 \<or> 1 \<le> variation_of_foam_pores_per_track p"
  shows "\<exists>k' t ps. generate_cell example_world p (example_config t0 f) xy (k, ts, fs)
             = Inr (k', ts @ [t], fs @ ps)
           \<and> ellipse_color t = LIGHT_ELLIPSE_COLOR
           \<and> (\<forall>e\<in>set ps. ellipse_color e = DARK_ELLIPSE_COLOR)
           \<and> (f = 0 \<longrightarrow> ps = [])
           \<and> (f \<noteq> 0 \<longrightarrow> ps \<noteq> [])"
proof -
  obtain x y where xy: "xy = (x, y)" by (cases xy) auto
  have w: "\<lfloor>track_mean_width p - track_mean_width p * track_width_variation p\<rfloor>
            < \<lceil>track_mean_width p + track_mean_width p * track_width_variation p\<rceil>"
    and h: "\<lfloor>track_mean_height p - track_mean_height p * track_height_variation p\<rfloor>
            < \<lceil>track_mean_height p + track_mean_height p * track_height_variation p\<rceil>"
    using assms by (simp_all add: loop_state_def floor_less_ceiling)
  show ?thesis
  proof (cases "f = 0")
    case True
    show ?thesis
      unfolding generate_cell_def xy
      by (simp add: example_randint [OF w] example_randint [OF h] Let_def True
          example_config_def)
  next
    case False
    with fv have v: "1 \<le> variation_of_foam_pores_per_track p" by simp
    show ?thesis
    proof -
      let ?m = "mean_foam_pores_per_track p" and ?v = "variation_of_foam_pores_per_track p"
      have r: "?m - ?v < ?m + ?v" using v by simp
      have n: "0 < nat (?m + ?v - 1)" using v assms by (simp add: loop_state_def)
      obtain t where t: "ellipse_color t = LIGHT_ELLIPSE_COLOR"
        and c: "generate_cell example_world p (example_config t0 f) xy (k, ts, fs)
          = Inr (foam_pore_loop example_world p x y (nat (?m + ?v - 1)) (k + 5, ts @ [t], fs))"
      proof -
        have "\<exists>t. ellipse_color t = LIGHT_ELLIPSE_COLOR
          \<and> generate_cell example_world p (example_config t0 f) xy (k, ts, fs)
          = Inr (foam_pore_loop example_world p x y (nat (?m + ?v - 1)) (k + 5, ts @ [t], fs))"
          unfolding generate_cell_def xy
          apply (simp add: example_randint [OF w] example_randint [OF h] example_randint [OF r]
              Let_def False example_config_def)
          apply (rule exI)
          apply (rule conjI)
           prefer 2
           apply (rule refl)
          apply simp
          done
        then show ?thesis using that by blast
      qed
      obtain ps where ps: "foam_pore_loop example_world p x y (nat (?m + ?v - 1)) (k + 5, ts @ [t], fs)
            = (k + 5 + 4 * nat (?m + ?v - 1), ts @ [t], fs @ ps)"
          "length ps = nat (?m + ?v - 1)" "\<forall>e\<in>set ps. ellipse_color e = DARK_ELLIPSE_COLOR"
        using foam_pore_loop_result by blast
      have "ps \<noteq> []" using ps(2) n by auto
      then show ?thesis using c ps t False by auto
    qed
  qed
qed


lemma all_light_iff: "all_light ts \<longleftrightarrow> (\<forall>e\<in>set ts. ellipse_color e = LIGHT_ELLIPSE_COLOR)"
proof -
  have "c \<noteq> DARK_ELLIPSE_COLOR \<longleftrightarrow> c = LIGHT_ELLIPSE_COLOR" for c by (cases c) simp_all
  then show ?thesis by (simp add: all_light_def list_ex_iff)
qed

lemma has_dark_iff: "has_dark fs \<longleftrightarrow> (\<exists>e\<in>set fs. ellipse_color e = DARK_ELLIPSE_COLOR)"
  by (simp add: has_dark_def list_ex_iff)

lemma grid_loop_example:
  assumes "loop_state p" and fv: "f = 0 \<or> 1 \<le> variation_of_foam_pores_per_track p"
  shows "\<exists>k' ts' fs'. grid_loop example_world p (example_config t0 f) cells (k, ts, fs)
             = Inr (k', ts', fs')
           \<and> (all_light ts \<longrightarrow> all_light ts')
           \<and> (f = 0 \<longrightarrow> fs' = fs)
           \<and> (f \<noteq> 0 \<and> cells \<noteq> [] \<longrightarrow> has_dark fs')
           \<and> (has_dark fs \<longrightarrow> has_dark fs')"
proof (induction cells arbitrary: k ts fs)
  case Nil
  then show ?case by simp
next
  case (Cons xy cells)
  obtain k1 t ps where c: "generate_cell example_world p (example_config t0 f) xy (k, ts, fs)
             = Inr (k1, ts @ [t], fs @ ps)"
      "ellipse_color t = LIGHT_ELLIPSE_COLOR"
      "\<forall>e\<in>set ps. ellipse_color e = DARK_ELLIPSE_COLOR"
      "f = 0 \<longrightarrow> ps = []" "f \<noteq> 0 \<longrightarrow> ps \<noteq> []"
    using generate_cell_example [OF assms] by blast
  obtain k' ts' fs' where g: "grid_loop example_world p (example_config t0 f) cells
        (k1, ts @ [t], fs @ ps) = Inr (k', ts', fs')"
      "all_light (ts @ [t]) \<longrightarrow> all_light ts'"
      "f = 0 \<longrightarrow> fs' = fs @ ps"
      "has_dark (fs @ ps) \<longrightarrow> has_dark fs'"
    using Cons.IH [of k1 "ts @ [t]" "fs @ ps"] by blast
  have d: "has_dark (fs @ ps)" if "f \<noteq> 0"
  proof -
    from that c(5) obtain e where "e \<in> set ps" by (cases ps) auto
    with c(3) show ?thesis by (auto simp: has_dark_iff)
  qed
  have l: "all_light (ts @ [t])" if "all_light ts"
    using that c(2) by (simp add: all_light_iff)
  have k: "has_dark (fs @ ps)" if "has_dark fs"
    using that by (auto simp: has_dark_iff)
  show ?case using c(1,4) g d l k by auto
qed

lemma generate_objects_example:
  assumes "loop_state p" and fv: "f = 0 \<or> 1 \<le> variation_of_foam_pores_per_track p"
  shows "\<exists>k' ts fs. generate_objects example_world k p (example_config t0 f) = Inr (k', ts, fs)
           \<and> all_light ts \<and> (f = 0 \<longrightarrow> fs = []) \<and> (f \<noteq> 0 \<longrightarrow> has_dark fs)"
proof -
  let ?cells = "List.product (py_range (image_width p) 50) (py_range (image_height p) 40)"
  have ne: "?cells \<noteq> []"
    using assms(1) by (simp add: loop_state_def product_nonempty py_range_nonempty)
  have go: "generate_objects example_world k p (example_config t0 f)
          = grid_loop example_world p (example_config t0 f) ?cells (k, [], [])"
    by (simp add: generate_objects_def example_config_def Let_def)
  have "all_light []" by (simp add: all_light_def)
  then show ?thesis
    unfolding go using grid_loop_example [OF assms, of t0 ?cells k "[]" "[]"] ne by auto
qed

section \<open>Runs of the loop in the example world\<close>

lemma example_images:
  "border_correction [[200, 200, 200, 100]] = [[200, 200, 200, 100]]"
  "border_correction [[100, 100, 100, 200]] = [[100, 100, 100, 200]]"
  by (rule border_correction_no_zero; simp add: rectangular_def no_zero_pixel_def)+

lemma example_measures:
  "calculate_porosity_w_mean [200, 200, 200, 100] = Inr 25"
  "calculate_porosity_w_mean [100, 100, 100, 200] = Inr 75"
  by (simp_all add: calculate_porosity_w_mean_def np_mean_def calculate_porosity_w_threshold_def
      calculate_porostiy_def)

lemma example_render:
  "convert_plt_to_greyscale_array example_world n fig =
     (if has_dark (patches fig) then [[100, 100, 100, 200]] else [[200, 200, 200, 100]])"
  by (simp add: example_world_def has_dark_def)

lemma has_dark_append: "has_dark (ts @ fs) \<longleftrightarrow> has_dark ts \<or> has_dark fs"
  by (auto simp: has_dark_iff)

lemma all_light_not_dark: "all_light ts \<longleftrightarrow> \<not> has_dark ts"
  by (simp add: all_light_def has_dark_def)

lemma render_and_measure_example:
  assumes "loop_state p" and fv: "f = 0 \<or> 1 \<le> variation_of_foam_pores_per_track p"
  shows "\<exists>k'. render_and_measure example_world k (example_config t0 f) p =
           (if f = 0
            then Inr (\<lparr>total_p = 25, by_foam_pores = 0, by_tracks = Some 25\<rparr>,
                      [[200, 200, 200, 100]], k')
            else Inr (\<lparr>total_p = 75, by_foam_pores = 50, by_tracks = Some 25\<rparr>,
                      [[100, 100, 100, 200]], k'))"
proof -
  obtain k1 ts fs where g: "generate_objects example_world k p (example_config t0 f)
        = Inr (k1, ts, fs)" "all_light ts" "f = 0 \<longrightarrow> fs = []" "f \<noteq> 0 \<longrightarrow> has_dark fs"
    using generate_objects_example [OF assms] by blast
  have pf: "porosity_function p = Callable Calculate_porosity_w_mean"
    using assms(1) by (simp add: loop_state_def)
  have nd: "\<not> has_dark ts" using g(2) by (simp add: all_light_not_dark)
  have e: "\<not> has_dark []" by (simp add: has_dark_def)
  have rm: "render_and_measure example_world k (example_config t0 f) p =
      Inr (\<lparr>total_p = (if has_dark fs then 75 else 25),
            by_foam_pores = (if has_dark fs then 50 else 0), by_tracks = Some 25\<rparr>,
           (if has_dark fs then [[100, 100, 100, 200]] else [[200, 200, 200, 100]]), k1 + 2)"
    using nd e
    by (simp add: render_and_measure_def g(1) Let_def setup_figure_w_axes_def example_render
        has_dark_append example_images call_porosity_function_def pf example_measures)
  show ?thesis
  proof (cases "f = 0")
    case True
    then have "\<not> has_dark fs" using g(3) e by simp
    then show ?thesis unfolding rm using True by simp
  next
    case False
    then have "has_dark fs" using g(4) by simp
    then show ?thesis unfolding rm using False by simp
  qed
qed


lemma loop_state_default: "loop_state default_Parameters"
  by (simp add: loop_state_def default_Parameters_def)

lemma example_config_desired [simp]:
  "desired_porosities (example_config t0 f) = \<lparr>total_p = t0, by_foam_pores = f, by_tracks = None\<rparr>"
  by (simp add: example_config_def)

lemma example_accepting_run:
  assumes "loop_state p"
  shows "generate_image (Suc n) example_world k (example_config 25 0) p save =
           Some (if save
                 then p\<lparr>porosity_function := Name ''calculate_porosity_w_mean''\<rparr> else p,
                 Inr \<lparr>total_p = 25, by_foam_pores = 0, by_tracks = Some 25\<rparr>)"
proof -
  obtain k' where rm: "render_and_measure example_world k (example_config 25 0) p =
      Inr (\<lparr>total_p = 25, by_foam_pores = 0, by_tracks = Some 25\<rparr>, [[200, 200, 200, 100]], k')"
    using render_and_measure_example [OF assms, of 0 k 25] by auto
  have m: "total_porosity_margin p = 1" "porosity_foam_pore_margin p = 2"
    "porosity_function p = Callable Calculate_porosity_w_mean"
    using assms by (simp_all add: loop_state_def)
  show ?thesis
    by (simp add: iteration_cases rm accepted_def porosity_in_margin_def m)
qed





section \<open>The claims about the loop, at concrete inputs\<close>


text \<open>
  C10 at the same run with \<open>save=True\<close>: the returned \<open>Parameters\<close> holds the name
  of the mean rule, and a second run with it raises.
\<close>

theorem save_files_overwrites_porosity_function_witness:
  "generate_image (Suc 0) example_world 0 (example_config 25 0) default_Parameters True
     = Some (default_Parameters\<lparr>porosity_function := Name ''calculate_porosity_w_mean''\<rparr>,
             Inr \<lparr>total_p = 25, by_foam_pores = 0, by_tracks = Some 25\<rparr>)
   \<and> (\<exists>e. generate_image (Suc 0) example_world 0 (example_config 25 0)
              (default_Parameters\<lparr>porosity_function := Name ''calculate_porosity_w_mean''\<rparr>) True
            = Some (default_Parameters\<lparr>porosity_function := Name ''calculate_porosity_w_mean''\<rparr>,
                    Inl e))"
proof -
  let ?p = "default_Parameters\<lparr>porosity_function := Name ''calculate_porosity_w_mean''\<rparr>"
  let ?a = "\<lparr>total_p = 25, by_foam_pores = 0, by_tracks = Some 25\<rparr>"
  have run: "generate_image (Suc 0) example_world 0 (example_config 25 0) default_Parameters True
     = Some (?p, Inr ?a)"
    using example_accepting_run [OF loop_state_default, of 0 0 True] by simp
  have "\<forall>n w' k' uc' save'.
          \<exists>e. generate_image (Suc n) w' k' uc' ?p save' = Some (?p, Inl e)
            \<and> (e = TypeError \<or> generate_objects w' k' ?p uc' = Inl e)"
    using run save_files_overwrites_porosity_function [where fuel = "Suc 0" and w = example_world
        and k = 0 and uc = "example_config 25 0" and p = default_Parameters and p'' = ?p
        and act = ?a]
    by blast
  then have "\<exists>e. generate_image (Suc 0) example_world 0 (example_config 25 0) ?p True
      = Some (?p, Inl e)" by blast
  with run show ?thesis by blast
qed




section \<open>Loading a configuration\<close>

lemma directory_suffix_condition_True: "directory_suffix_condition output_directory"
  by (simp add: directory_suffix_condition_def py_truthy_str_def backslash_def)

lemma build_user_config_output:
  assumes "build_user_config ucd dpd od = (msgs, Inr uc)"
  shows "\<exists>d. d \<noteq> [] \<and> output_folder uc = d @ backslash
           \<and> (od = Some d \<or> (od = None \<and> map_of ucd ''output_folder'' = Some (JStr d)))"
proof -
  obtain d where d: "(case od of
               None \<Rightarrow> Option.bind (map_of ucd ''output_folder'') as_str
             | Some g \<Rightarrow> Some g) = Some d"
    and r: "d \<noteq> []" "output_folder uc = d @ backslash"
    using assms
    by (auto simp: build_user_config_def directory_suffix_condition_True Let_def
        split: option.splits if_splits)
  have "od = Some d \<or> (od = None \<and> map_of ucd ''output_folder'' = Some (JStr d))"
    using d by (auto simp: as_str_def split: option.splits json.splits Option.bind_splits)
  with r show ?thesis by blast
qed

lemma UserConfig_load_from_file_Inr:
  assumes "UserConfig_load_from_file fs filename od = (msgs, Inr uc)"
  shows "\<exists>loaded ucd dpd. json_load fs filename = Some (JDict loaded)
           \<and> map_of loaded ''user_config'' = Some (JDict ucd)
           \<and> build_user_config ucd dpd od = (msgs, Inr uc)"
  using assms
  by (auto simp: UserConfig_load_from_file_def as_dict_def
      split: if_splits option.splits sum.splits prod.splits json.splits)

text \<open>
  C8. The directory-suffix condition of \<open>UserConfig.load_from_file\<close> is true for
  every string, whatever its last character, and so a backslash is appended to every
  output directory the loader stores: the stored \<open>output_folder\<close> is the directory
  given by the caller, or else the one of the file, followed by the separator, also when
  the directory already ends with a separator.
\<close>

theorem output_folder_separator_always_appended:
  "directory_suffix_condition output_directory
   \<and> (UserConfig_load_from_file fs filename od = (msgs, Inr uc) \<longrightarrow>
        (\<exists>d. d \<noteq> [] \<and> output_folder uc = d @ backslash
           \<and> (od = Some d
              \<or> (od = None
                 \<and> (\<exists>loaded ucd. json_load fs filename = Some (JDict loaded)
                       \<and> map_of loaded ''user_config'' = Some (JDict ucd)
                       \<and> map_of ucd ''output_folder'' = Some (JStr d))))))"
proof -
  have "\<exists>d. d \<noteq> [] \<and> output_folder uc = d @ backslash
           \<and> (od = Some d
              \<or> (od = None
                 \<and> (\<exists>loaded ucd. json_load fs filename = Some (JDict loaded)
                       \<and> map_of loaded ''user_config'' = Some (JDict ucd)
                       \<and> map_of ucd ''output_folder'' = Some (JStr d))))"
    if h: "UserConfig_load_from_file fs filename od = (msgs, Inr uc)"
  proof -
    obtain loaded ucd dpd where l: "json_load fs filename = Some (JDict loaded)"
      "map_of loaded ''user_config'' = Some (JDict ucd)"
      "build_user_config ucd dpd od = (msgs, Inr uc)"
      using UserConfig_load_from_file_Inr [OF h] by blast
    from build_user_config_output [OF l(3)] l(1,2) show ?thesis by blast
  qed
  then show ?thesis using directory_suffix_condition_True by blast
qed

text \<open>Loading the example file, whose output directory ends with a slash.\<close>

lemma example_user_config_loaded:
  "UserConfig_load_from_file
     (example_file_system
        (example_document [(''total'', JInt 50), (''by_foam_pores'', JInt 10)]
           ''calculate_porosity_w_mean''))
     ''config.json'' None
   = ([], Inr \<lparr> layer_height = 40, layer_width_to_layer_height_ratio = 5 / 4,
                desired_porosities = \<lparr>total_p = 50, by_foam_pores = 10, by_tracks = None\<rparr>,
                output_folder = ''output/'' @ backslash \<rparr>)"
  by (simp add: UserConfig_load_from_file_def example_file_system_def example_document_def
      example_user_config_dict_def as_dict_def needed_params_def needed_porosity_params_def build_user_config_def
      as_int_def as_real_def as_str_def directory_suffix_condition_True)

text \<open>C8 at the example file: the directory ends with \<open>/\<close> and the separator is appended.\<close>

theorem output_folder_separator_always_appended_witness:
  "directory_suffix_condition ''output/''
   \<and> last ''output/'' = CHR ''/''
   \<and> UserConfig_load_from_file
        (example_file_system
           (example_document [(''total'', JInt 50), (''by_foam_pores'', JInt 10)]
              ''calculate_porosity_w_mean''))
        ''config.json'' None
      = ([], Inr \<lparr> layer_height = 40, layer_width_to_layer_height_ratio = 5 / 4,
                   desired_porosities = \<lparr>total_p = 50, by_foam_pores = 10, by_tracks = None\<rparr>,
                   output_folder = ''output/'' @ backslash \<rparr>)"
  using output_folder_separator_always_appended [of "''output/''"
      "example_file_system
        (example_document [(''total'', JInt 50), (''by_foam_pores'', JInt 10)]
           ''calculate_porosity_w_mean'')" "''config.json''" None "[]"
      "\<lparr> layer_height = 40, layer_width_to_layer_height_ratio = 5 / 4,
         desired_porosities = \<lparr>total_p = 50, by_foam_pores = 10, by_tracks = None\<rparr>,
         output_folder = ''output/'' @ backslash \<rparr>"]
    example_user_config_loaded
  by simp

text \<open>
  C6. A configuration whose \<open>desired_porosities\<close> lacks \<open>total\<close> fails to load with
  \<open>RuntimeError\<close>, but the message printed names \<open>desired_porosities\<close>, the last value
  of the variable of the first loop, and not the missing field \<open>total\<close>.
\<close>

theorem missing_total_reported_as_desired_porosities:
  "UserConfig_load_from_file
     (example_file_system
        (example_document [(''by_foam_pores'', JInt 10)] ''calculate_porosity_w_mean''))
     ''config.json'' None
   = ([''Error! Parameter desired_porosities was not specified in desired porosities dict of specified config file''],
      Inl (Python RuntimeError))"
  by (simp add: UserConfig_load_from_file_def example_file_system_def example_document_def
      example_user_config_dict_def as_dict_def needed_params_def needed_porosity_params_def)

text \<open>The message printed for the missing \<open>total\<close> is not the one that names it.\<close>

theorem missing_total_reported_as_desired_porosities_witness:
  "fst (UserConfig_load_from_file
     (example_file_system
        (example_document [(''by_foam_pores'', JInt 10)] ''calculate_porosity_w_mean''))
     ''config.json'' None)
   \<noteq> [''Error! Parameter total was not specified in desired porosities dict of specified config file'']"
  using missing_total_reported_as_desired_porosities by simp

text \<open>
  What holds of C6: a missing field of \<open>user_config\<close> is reported by its name, and a
  missing field of \<open>parameters\<close> raises \<open>KeyError\<close> with its name.
\<close>

lemma needed_params_loop_names_missing:
  "needed_params_loop d ps param = Inl (msgs, e) \<Longrightarrow>
     \<exists>p\<in>set ps. map_of d p = None
       \<and> msgs = [''Error! Parameter '' @ p @ '' was not specified in specified config file!'']
       \<and> e = Python RuntimeError"
  by (induction ps arbitrary: param) (auto split: if_splits)

lemma needed_params_loop_missing_fails:
  "p \<in> set ps \<Longrightarrow> map_of d p = None \<Longrightarrow> \<exists>r. needed_params_loop d ps param = Inl r"
  by (induction ps arbitrary: param) auto

lemma assign_all_names_missing:
  "assign_all pf as params = Inl (Python e) \<Longrightarrow>
     \<exists>key\<in>fst ` set as. map_of pf key = None \<and> e = KeyError key"
proof (induction as arbitrary: params)
  case Nil
  then show ?case by simp
next
  case (Cons a as)
  obtain key assign where a: "a = (key, assign)" by (cases a) auto
  show ?case
  proof (cases "map_of pf key")
    case None
    with Cons.prems show ?thesis by (simp add: a)
  next
    case (Some v)
    with Cons.prems obtain p1 where "assign_all pf as p1 = Inl (Python e)"
      by (auto simp: a split: option.splits)
    from Cons.IH [OF this] show ?thesis by auto
  qed
qed

lemma assign_all_missing_fails:
  "key \<in> fst ` set as \<Longrightarrow> map_of pf key = None \<Longrightarrow> \<exists>e. assign_all pf as params = Inl e"
proof (induction as arbitrary: params)
  case Nil
  then show ?case by simp
next
  case (Cons a as)
  obtain k assign where a: "a = (k, assign)" by (cases a) auto
  show ?case
  proof (cases "map_of pf k")
    case None
    then show ?thesis by (simp add: a)
  next
    case (Some v)
    with Cons.prems(2) have "k \<noteq> key" by auto
    with Cons.prems(1) have m: "key \<in> fst ` set as" by (auto simp: a)
    show ?thesis
    proof (cases "assign v params")
      case None
      with Some show ?thesis by (simp add: a)
    next
      case (Some p1)
      with \<open>map_of pf k = Some v\<close> Cons.IH [OF m Cons.prems(2), of p1] show ?thesis
        by (simp add: a)
    qed
  qed
qed

lemma field_keeps_porosity_function:
  "int_field (\<lambda>v p. f v p) v params = Some params' \<Longrightarrow>
     (\<And>v p. porosity_function (f v p) = porosity_function p) \<Longrightarrow>
     porosity_function params' = porosity_function params"
  "real_field (\<lambda>v p. g v p) v params = Some params' \<Longrightarrow>
     (\<And>v p. porosity_function (g v p) = porosity_function p) \<Longrightarrow>
     porosity_function params' = porosity_function params"
  by (auto simp: int_field_def real_field_def)

lemma assignments_keep_porosity_function:
  assumes "(key, assign) \<in> set assignments" and "assign v params = Some params'"
  shows "porosity_function params' = porosity_function params"
  using assms unfolding assignments_def
  by (auto simp: int_field_def real_field_def)

lemma assign_all_keeps_porosity_function:
  assumes "\<And>key assign v p p'. (key, assign) \<in> set as \<Longrightarrow> assign v p = Some p' \<Longrightarrow>
             porosity_function p' = porosity_function p"
    and "assign_all pf as params = Inr params'"
  shows "porosity_function params' = porosity_function params"
  using assms
proof (induction as arbitrary: params)
  case Nil
  then show ?case by simp
next
  case (Cons a as)
  obtain key assign where a: "a = (key, assign)" by (cases a) auto
  from Cons.prems(2) obtain v p1 where s: "map_of pf key = Some v" "assign v params = Some p1"
      "assign_all pf as p1 = Inr params'"
    unfolding a by (auto split: option.splits)
  have "porosity_function p1 = porosity_function params"
    using Cons.prems(1) [of key assign v params p1] s(2) a by simp
  moreover have "porosity_function params' = porosity_function p1"
    using Cons.IH [OF _ s(3)] Cons.prems(1) by (meson list.set_intros(2))
  ultimately show ?case by simp
qed

lemma set_foam_pore_variation_keeps_porosity_function:
  "set_foam_pore_variation_of_diameter pf params = Inr params' \<Longrightarrow>
     porosity_function params' = porosity_function params"
  by (auto simp: set_foam_pore_variation_of_diameter_def split: option.splits)

text \<open>
  C3 (as amended). If \<open>Parameters.load_from_file\<close> reads a configuration whose
  porosity-rule name is neither \<open>calculate_porosity_w_mean\<close> nor
  \<open>calculate_porosity_w_median\<close>, the condition is reported with a red terminal message
  and the load goes on: a \<open>Parameters\<close> object it returns holds the default rule
  \<open>calculate_porosity_w_mean\<close>.
\<close>

theorem unknown_rule_name_keeps_default_rule:
  assumes "json_load fs filename = Some (JDict loaded)"
    and "map_of loaded ''parameters'' = Some (JDict parameter_file)"
    and "map_of parameter_file ''porosity_function'' = Some name"
    and "name \<noteq> JStr ''calculate_porosity_w_mean''"
    and "name \<noteq> JStr ''calculate_porosity_w_median''"
    and "Parameters_load_from_file fs filename = (msgs, Inr params)"
  shows "msgs = [''The given porosity function is not supported in this loading process'']
       \<and> porosity_function params = Callable Calculate_porosity_w_mean"
proof -
  have f: "is_file fs filename"
    using assms(6) by (auto simp: Parameters_load_from_file_def split: if_splits)
  have sp: "set_porosity_function name default_Parameters
      = ([''The given porosity function is not supported in this loading process''],
         default_Parameters)"
    using assms(4,5) by (simp add: set_porosity_function_def)
  from assms(6) obtain p1 where
    m: "msgs = [''The given porosity function is not supported in this loading process'']"
    and a: "assign_all parameter_file assignments default_Parameters = Inr p1"
    and v: "set_foam_pore_variation_of_diameter parameter_file p1 = Inr params"
    by (auto simp: Parameters_load_from_file_def f assms(1,2,3) as_dict_def sp Let_def
        split: sum.splits)
  have "porosity_function p1 = porosity_function default_Parameters"
    using assign_all_keeps_porosity_function [OF assignments_keep_porosity_function a] .
  moreover have "porosity_function params = porosity_function p1"
    by (rule set_foam_pore_variation_keeps_porosity_function [OF v])
  ultimately show ?thesis using m by (simp add: default_Parameters_def)
qed

text \<open>
  Loading the example file with the rule name \<open>save_files\<close> writes for the median rule.
\<close>

lemma example_parameters_loaded:
  "Parameters_load_from_file
     (example_file_system
        (example_document [(''total'', JInt 50), (''by_foam_pores'', JInt 10)]
           ''calculate_porosity_w_median_plus_1''))
     ''config.json''
   = ([''The given porosity function is not supported in this loading process''],
      Inr (default_Parameters\<lparr>foam_pores_center_scaling_factor := 17,
                               foam_pore_variation_of_diameter := 1\<rparr>))"
  by (simp add: Parameters_load_from_file_def example_file_system_def example_document_def
      example_parameter_file_def as_dict_def set_porosity_function_def assignments_def int_field_def real_field_def
      as_int_def as_real_def set_foam_pore_variation_of_diameter_def default_Parameters_def)

text \<open>C3 (as amended) at the example file.\<close>

theorem unknown_rule_name_keeps_default_rule_witness:
  "Parameters_load_from_file
     (example_file_system
        (example_document [(''total'', JInt 50), (''by_foam_pores'', JInt 10)]
           ''calculate_porosity_w_median_plus_1''))
     ''config.json''
   = ([''The given porosity function is not supported in this loading process''],
      Inr (default_Parameters\<lparr>foam_pores_center_scaling_factor := 17,
                               foam_pore_variation_of_diameter := 1\<rparr>))
   \<and> porosity_function (default_Parameters\<lparr>foam_pores_center_scaling_factor := 17,
                               foam_pore_variation_of_diameter := 1\<rparr>)
       = Callable Calculate_porosity_w_mean"
proof -
  let ?fs = "example_file_system
        (example_document [(''total'', JInt 50), (''by_foam_pores'', JInt 10)]
           ''calculate_porosity_w_median_plus_1'')"
  let ?loaded = "[(''user_config'', JDict (example_user_config_dict
                     [(''total'', JInt 50), (''by_foam_pores'', JInt 10)])),
                  (''parameters'', JDict (example_parameter_file
                     ''calculate_porosity_w_median_plus_1''))]"
  have l: "json_load ?fs ''config.json'' = Some (JDict ?loaded)"
    by (simp add: example_file_system_def example_document_def)
  have p: "map_of ?loaded ''parameters''
      = Some (JDict (example_parameter_file ''calculate_porosity_w_median_plus_1''))"
    by simp
  have n: "map_of (example_parameter_file ''calculate_porosity_w_median_plus_1'')
      ''porosity_function'' = Some (JStr ''calculate_porosity_w_median_plus_1'')"
    by (simp add: example_parameter_file_def)
  have d: "JStr ''calculate_porosity_w_median_plus_1'' \<noteq> JStr ''calculate_porosity_w_mean''"
    "JStr ''calculate_porosity_w_median_plus_1'' \<noteq> JStr ''calculate_porosity_w_median''"
    by simp_all
  show ?thesis
    using unknown_rule_name_keeps_default_rule [OF l p n d example_parameters_loaded]
      example_parameters_loaded
    by simp
qed

text \<open>
  C3 as stated fails at the example file: the load is not aborted, it returns a
  \<open>Parameters\<close> object, and the object holds the default rule.
\<close>

theorem unknown_rule_name_load_not_aborted_counterexample:
  "snd (Parameters_load_from_file
     (example_file_system
        (example_document [(''total'', JInt 50), (''by_foam_pores'', JInt 10)]
           ''calculate_porosity_w_median_plus_1''))
     ''config.json'')
   = Inr (default_Parameters\<lparr>foam_pores_center_scaling_factor := 17,
                             foam_pore_variation_of_diameter := 1\<rparr>)
   \<and> porosity_function (default_Parameters\<lparr>foam_pores_center_scaling_factor := 17,
                             foam_pore_variation_of_diameter := 1\<rparr>)
       = Callable Calculate_porosity_w_mean"
  by (simp add: example_parameters_loaded default_Parameters_def)


end
